theory Spec2Isabelle
  imports Complex_Main
begin

section \<open>Python exceptions as values\<close>

text \<open>
  Every \<^verbatim>\<open>raise\<close> of the service, and every exception a library call of the service
  can raise, is a value \<open>Err c msg\<close>: the exception class and the text \<^verbatim>\<open>str(e)\<close>
  gives. The texts of library exceptions are abbreviated; no property below depends on
  them beyond their being strings.
\<close>

datatype exc_class =
  FileNotFoundError | OSError | UnpicklingError | KeyError | TypeError
  | ValueError | IndexError | Exception

datatype error = Err exc_class string

fun str :: "error \<Rightarrow> string" where
  "str (Err c msg) = msg"


definition bnd :: "error + 'a \<Rightarrow> ('a \<Rightarrow> error + 'b) \<Rightarrow> error + 'b" where
  "bnd r f = (case r of Inl e \<Rightarrow> Inl e | Inr v \<Rightarrow> f v)"

section \<open>The numpy operations the service uses\<close>

text \<open>
  Arithmetic is over the reals: the model is the exact-arithmetic reading of the float
  code. A 2-D array is the list of its rows, a 1-D array a list.
\<close>

type_synonym vec = "real list"
type_synonym mat = "real list list"

definition ncols :: "mat \<Rightarrow> nat" where
  "ncols M = (case M of [] \<Rightarrow> 0 | r # _ \<Rightarrow> length r)"

definition is_mat :: "nat \<Rightarrow> nat \<Rightarrow> mat \<Rightarrow> bool" where
  "is_mat r c M = (length M = r \<and> list_all (\<lambda>row. length row = c) M)"

definition column :: "mat \<Rightarrow> nat \<Rightarrow> vec" where
  "column W j = map (\<lambda>r. r ! j) W"

definition dot :: "vec \<Rightarrow> vec \<Rightarrow> real" where
  "dot u v = sum_list (map2 (*) u v)"

text \<open>\<^verbatim>\<open>X @ W\<close> for 2-D operands: the inner dimensions must agree, else ValueError.\<close>

definition np_matmul :: "mat \<Rightarrow> mat \<Rightarrow> error + mat" where
  "np_matmul X W =
     (if ncols X \<noteq> length W
      then Inl (Err ValueError ''matmul: Input operand 1 has a mismatch in its core dimension 0'')
      else Inr (map (\<lambda>r. map (\<lambda>j. dot r (column W j)) [0..<ncols W]) X))"

text \<open>
  \<^verbatim>\<open>Z + b\<close> for a 2-D \<open>Z\<close> and a bias vector \<open>b\<close>, with numpy's broadcasting: equal
  trailing dimensions add row by row, a dimension of size 1 is stretched, anything else
  is a ValueError.
\<close>

definition np_add :: "mat \<Rightarrow> vec \<Rightarrow> error + mat" where
  "np_add Z b =
     (if ncols Z = length b then Inr (map (\<lambda>r. map2 (+) r b) Z)
      else if length b = 1 then Inr (map (map (\<lambda>z. z + b ! 0)) Z)
      else if ncols Z = 1 then Inr (map (\<lambda>r. map (\<lambda>y. r ! 0 + y) b) Z)
      else Inl (Err ValueError ''operands could not be broadcast together''))"

text \<open>\<^verbatim>\<open>np.max(x, axis=1, keepdims=True)\<close>: the maximum of each row; an empty row raises.\<close>

definition amax :: "vec \<Rightarrow> real" where
  "amax xs = fold max (tl xs) (hd xs)"

definition np_max_axis1 :: "mat \<Rightarrow> error + vec" where
  "np_max_axis1 x =
     (if list_ex (\<lambda>r. r = []) x
      then Inl (Err ValueError ''zero-size array to reduction operation maximum which has no identity'')
      else Inr (map amax x))"

section \<open>The service\<close>

text \<open>
  Modelled from the spec: the scaler object stored under the key \<^verbatim>\<open>scaler\<close> of the model
  artifact, whose class is not in the repository. The spec gives it as a mean and a
  scale per input dimension, applied as \<open>(raw - mean) / scale\<close>, failing when the
  dimensionality of the input differs from that of the stored parameters.
\<close>

record scaler =
  sc_mean :: vec
  sc_scale :: vec

definition transform :: "scaler \<Rightarrow> mat \<Rightarrow> error + mat" where
  "transform sc X =
     (if ncols X \<noteq> length (sc_mean sc) \<or> ncols X \<noteq> length (sc_scale sc)
      then Inl (Err ValueError ''X has a different number of features than the scaler is expecting'')
      else Inr (map (\<lambda>r. map (\<lambda>i. (r ! i - sc_mean sc ! i) / sc_scale sc ! i) [0..<length r]) X))"

text \<open>
  The unpickled model: the dictionary with the keys \<^verbatim>\<open>W1 b1 W2 b2 W3 b3 scaler\<close> that
  \<^verbatim>\<open>_forward_pass\<close> and \<^verbatim>\<open>_preprocess_image\<close> read, as the spec's ModelParameters bundle
  (three weight matrices, three bias vectors, a scaler).
\<close>

record model_params =
  W1 :: mat
  b1 :: vec
  W2 :: mat
  b2 :: vec
  W3 :: mat
  b3 :: vec
  scaler :: scaler

text \<open>
  \<^verbatim>\<open>self.model\<close> is \<^verbatim>\<open>None\<close> or the unpickled object. \<^verbatim>\<open>self.label_map\<close> is the same
  in every instance and never assigned again: it is the constant \<open>label_items\<close> below.
\<close>

record service =
  model :: "model_params option"

definition leaky_relu :: "mat \<Rightarrow> real \<Rightarrow> mat" where
  "leaky_relu x alpha = map (map (\<lambda>v. if v > 0 then v else alpha * v)) x"

definition softmax :: "mat \<Rightarrow> error + mat" where
  "softmax x =
     bnd (np_max_axis1 x) (\<lambda>mx.
       let exp_vals = map2 (\<lambda>r m. map (\<lambda>v. exp (v - m)) r) x mx
       in Inr (map (\<lambda>r. map (\<lambda>e. e / sum_list r) r) exp_vals))"

definition forward_pass :: "service \<Rightarrow> mat \<Rightarrow> error + mat" where
  "forward_pass self X =
     (case model self of
        None \<Rightarrow> Inl (Err Exception ''Model not loaded. Cannot perform prediction.'')
      | Some m \<Rightarrow>
          bnd (np_matmul X (W1 m)) (\<lambda>XW1.
          bnd (np_add XW1 (b1 m)) (\<lambda>Z1.
          let A1 = leaky_relu Z1 0.01 in
          bnd (np_matmul A1 (W2 m)) (\<lambda>A1W2.
          bnd (np_add A1W2 (b2 m)) (\<lambda>Z2.
          let A2 = leaky_relu Z2 0.01 in
          bnd (np_matmul A2 (W3 m)) (\<lambda>A2W3.
          bnd (np_add A2W3 (b3 m)) (\<lambda>Z3.
          softmax Z3)))))))"

section \<open>Preprocessing\<close>

text \<open>
  A decoded image, as far as the service reads it: its mode and its pixel grid, the list
  of its rows (for mode \<^verbatim>\<open>L\<close> one value in 0..255 per pixel). \<^verbatim>\<open>np.array(img).flatten()\<close>
  reads the grid row after row.
\<close>

record image =
  img_mode :: string
  img_pixels :: "nat list list"

text \<open>
  The Pillow calls of \<^verbatim>\<open>_preprocess_image\<close> are parameters: each may raise (\<^verbatim>\<open>Image.open\<close>
  on bytes that are no image, \<^verbatim>\<open>convert\<close> when the lazily opened file turns out to be
  truncated).
\<close>

record pil =
  Image_open :: "nat list \<Rightarrow> error + image"
  convert :: "image \<Rightarrow> string \<Rightarrow> error + image"
  resize :: "image \<Rightarrow> nat \<times> nat \<Rightarrow> error + image"

text \<open>
  What a caller can pass as \<^verbatim>\<open>image_data\<close>: bytes, a PIL image, or any other object
  (with its truth value, which the controller tests).
\<close>

datatype image_data = Bytes "nat list" | PILImage image | OtherObject bool

definition preprocess_image :: "service \<Rightarrow> pil \<Rightarrow> image_data \<Rightarrow> error + mat" where
  "preprocess_image self lib data =
     (case
        bnd (case data of
               Bytes bs \<Rightarrow> Image_open lib bs
             | PILImage i \<Rightarrow> Inr i
             | OtherObject _ \<Rightarrow>
                 Inl (Err ValueError ''Invalid image data type. Expected bytes or PIL Image.''))
          (\<lambda>img.
        bnd (convert lib img ''L'') (\<lambda>img.
        bnd (resize lib img (32, 32)) (\<lambda>img_resized.
        let img_array = map real (concat (img_pixels img_resized)) in
        bnd (case model self of
               None \<Rightarrow> Inl (Err TypeError ''NoneType object is not subscriptable'')
             | Some m \<Rightarrow> Inr (scaler m))
          (\<lambda>sc. transform sc [img_array]))))
      of
        Inl e \<Rightarrow> Inl (Err Exception (''Image preprocessing failed: '' @ str e))
      | Inr img_scaled \<Rightarrow> Inr img_scaled)"

section \<open>Prediction\<close>

function str_nat :: "nat \<Rightarrow> string" where
  "str_nat n =
     (if n < 10 then [''0123456789'' ! n]
      else str_nat (n div 10) @ [''0123456789'' ! (n mod 10)])"
  by pat_completeness auto
termination
  by (relation "measure id") auto

text \<open>
  The format \<^verbatim>\<open>{confidence:.2%}\<close> of a non-negative number: the value times 100 with two
  decimals, rounded half to even, and a percent sign.
\<close>

definition round_half_even :: "real \<Rightarrow> int" where
  "round_half_even x =
     (let f = \<lfloor>x\<rfloor>; d = x - of_int f
      in if d < 1 / 2 then f else if d > 1 / 2 then f + 1 else if even f then f else f + 1)"

definition fmt_pct :: "real \<Rightarrow> string" where
  "fmt_pct c =
     (let n = nat (round_half_even (c * 10000))
      in str_nat (n div 100) @ ''.'' @ str_nat (n mod 100 div 10) @ str_nat (n mod 10) @ ''%'')"

text \<open>
  \<^verbatim>\<open>np.argmax(a)\<close> scans the flattened array and keeps the first index of the largest
  value; \<^verbatim>\<open>np.max(a)\<close> is the largest value. Both raise on an empty array.
\<close>

fun argmax_from :: "real \<Rightarrow> nat \<Rightarrow> nat \<Rightarrow> real list \<Rightarrow> nat" where
  "argmax_from mv mi i [] = mi"
| "argmax_from mv mi i (x # xs) =
     (if x > mv then argmax_from x i (Suc i) xs else argmax_from mv mi (Suc i) xs)"

definition np_argmax :: "mat \<Rightarrow> error + nat" where
  "np_argmax a =
     (case concat a of
        [] \<Rightarrow> Inl (Err ValueError ''attempt to get argmax of an empty sequence'')
      | x # xs \<Rightarrow> Inr (argmax_from x 0 1 xs))"

definition np_max :: "mat \<Rightarrow> error + real" where
  "np_max a =
     (case concat a of
        [] \<Rightarrow> Inl (Err ValueError ''zero-size array to reduction operation maximum which has no identity'')
      | x # xs \<Rightarrow> Inr (amax (x # xs)))"

definition label_items :: "(nat \<times> string) list" where
  "label_items = [(0, ''glioma''), (1, ''meningioma''), (2, ''notumor''), (3, ''pituitary'')]"

definition label_lookup :: "nat \<Rightarrow> error + string" where
  "label_lookup k =
     (case map_of label_items k of
        None \<Rightarrow> Inl (Err KeyError (str_nat k))
      | Some l \<Rightarrow> Inr l)"

definition index2 :: "mat \<Rightarrow> nat \<Rightarrow> nat \<Rightarrow> error + real" where
  "index2 a i j =
     (if i \<ge> length a then Inl (Err IndexError ''index is out of bounds for axis 0'')
      else if j \<ge> length (a ! i) then Inl (Err IndexError ''index is out of bounds for axis 1'')
      else Inr (a ! i ! j))"

definition tolist0 :: "mat \<Rightarrow> error + real list" where
  "tolist0 a =
     (case a of [] \<Rightarrow> Inl (Err IndexError ''list index out of range'') | r # _ \<Rightarrow> Inr r)"

text \<open>The dictionary comprehension over \<^verbatim>\<open>range(len(self.label_map))\<close>, in insertion order.\<close>

fun class_probabilities_of :: "mat \<Rightarrow> nat list \<Rightarrow> error + (string \<times> real) list" where
  "class_probabilities_of probs [] = Inr []"
| "class_probabilities_of probs (i # is) =
     bnd (label_lookup i) (\<lambda>l.
     bnd (index2 probs 0 i) (\<lambda>p.
     bnd (class_probabilities_of probs is) (\<lambda>rest. Inr ((l, p) # rest))))"

record prediction_result =
  success :: bool
  error :: "string option"
  predicted_class :: "nat option"
  tumor_type :: "string option"
  confidence :: real
  probabilities :: "real list"
  class_probabilities :: "(string \<times> real) list"
  message :: "string option"

text \<open>The body of the \<^verbatim>\<open>try\<close> of \<^verbatim>\<open>predict_brain_tumor\<close>, and the function with its handler.\<close>

definition predict_try :: "service \<Rightarrow> pil \<Rightarrow> image_data \<Rightarrow> error + prediction_result" where
  "predict_try self lib data =
     bnd (preprocess_image self lib data) (\<lambda>processed_image.
     bnd (forward_pass self processed_image) (\<lambda>probs.
     bnd (np_argmax probs) (\<lambda>pc.
     bnd (label_lookup pc) (\<lambda>tt.
     bnd (np_max probs) (\<lambda>conf.
     bnd (class_probabilities_of probs [0..<length label_items]) (\<lambda>cps.
     bnd (tolist0 probs) (\<lambda>row.
     Inr \<lparr>success = True, error = None, predicted_class = Some pc, tumor_type = Some tt,
          confidence = conf, probabilities = row, class_probabilities = cps,
          message = Some (''Brain scan classified as: '' @ tt @ '' (confidence: ''
                          @ fmt_pct conf @ '')'')\<rparr>)))))))"

definition predict_brain_tumor :: "service \<Rightarrow> pil \<Rightarrow> image_data \<Rightarrow> prediction_result" where
  "predict_brain_tumor self lib data =
     (case predict_try self lib data of
        Inr result \<Rightarrow> result
      | Inl e \<Rightarrow>
          \<lparr>success = False, error = Some (''Prediction failed: '' @ str e),
           predicted_class = None, tumor_type = None, confidence = 0, probabilities = [],
           class_probabilities = [], message = None\<rparr>)"

record model_info =
  loaded :: bool
  info_error :: "string option"
  model_type :: "string option"
  input_shape :: "string option"
  output_classes :: "nat option"
  class_labels :: "string list option"
  description :: "string option"


section \<open>Loading the model\<close>





section \<open>Persisting a prediction\<close>

datatype json_value =
  JNull | JBool bool | JNum real | JStr string | JList "json_value list"
  | JObj "(string \<times> json_value) list"

fun truthy :: "json_value \<Rightarrow> bool" where
  "truthy JNull = False"
| "truthy (JBool b) = b"
| "truthy (JNum x) = (x \<noteq> 0)"
| "truthy (JStr s) = (s \<noteq> [])"
| "truthy (JList xs) = (xs \<noteq> [])"
| "truthy (JObj kvs) = (kvs \<noteq> [])"

record http_response =
  status_code :: nat
  json :: "error + json_value"

text \<open>
  \<^verbatim>\<open>ImageRepository.update_image_information\<close>; \<^verbatim>\<open>requests.patch\<close> is the parameter
  \<open>patch\<close>, taking the URL and the prediction stored under \<^verbatim>\<open>information\<close>. Python's
  \<^verbatim>\<open>None\<close> is \<open>JNull\<close>.
\<close>

definition update_image_information ::
  "(string \<Rightarrow> prediction_result \<Rightarrow> error + http_response) \<Rightarrow> string \<Rightarrow> string
     \<Rightarrow> prediction_result \<Rightarrow> json_value" where
  "update_image_information patch base_url image_id prediction_data =
     (case patch (base_url @ ''/images?id=eq.'' @ image_id) prediction_data of
        Inl e \<Rightarrow> JNull
      | Inr response \<Rightarrow>
          if status_code response = 200
          then (case json response of
                  Inl e \<Rightarrow> JNull
                | Inr updated_data \<Rightarrow>
                    (case updated_data of JList (x # xs) \<Rightarrow> x | _ \<Rightarrow> updated_data))
          else JNull)"

record response =
  r_message :: "string option"
  r_error :: "string option"
  r_success :: bool
  r_data :: "prediction_result option"
  r_updated_image :: "json_value option"
  r_warning :: "string option"

definition not_image_data :: "image_data \<Rightarrow> bool" where
  "not_image_data d = (case d of Bytes bs \<Rightarrow> bs = [] | PILImage _ \<Rightarrow> False | OtherObject t \<Rightarrow> \<not> t)"

text \<open>
  \<^verbatim>\<open>ImageController.predict_and_save_brain_tumor\<close>. Neither call inside its \<^verbatim>\<open>try\<close> can
  raise (each catches every exception itself), so the \<^verbatim>\<open>except\<close> branch has no case here.
\<close>

definition predict_and_save_brain_tumor ::
  "service \<Rightarrow> pil \<Rightarrow> (string \<Rightarrow> prediction_result \<Rightarrow> error + http_response) \<Rightarrow> string
     \<Rightarrow> image_data \<Rightarrow> string option \<Rightarrow> response \<times> nat" where
  "predict_and_save_brain_tumor svc lib patch base_url data image_id =
     (if not_image_data data
      then (\<lparr>r_message = None, r_error = Some ''Image data is required'', r_success = False,
             r_data = None, r_updated_image = None, r_warning = None\<rparr>, 400)
      else case image_id of
        None \<Rightarrow>
          (\<lparr>r_message = None, r_error = Some ''Image ID is required'', r_success = False,
            r_data = None, r_updated_image = None, r_warning = None\<rparr>, 400)
      | Some iid \<Rightarrow>
          if iid = [] then
            (\<lparr>r_message = None, r_error = Some ''Image ID is required'', r_success = False,
              r_data = None, r_updated_image = None, r_warning = None\<rparr>, 400)
          else
            let prediction = predict_brain_tumor svc lib data in
            if success prediction then
              let updated_image = update_image_information patch base_url iid prediction in
              if truthy updated_image then
                (\<lparr>r_message = Some ''Brain tumor prediction completed and saved successfully'',
                  r_error = None, r_success = True, r_data = Some prediction,
                  r_updated_image = Some updated_image, r_warning = None\<rparr>, 200)
              else
                (\<lparr>r_message = Some ''Brain tumor prediction completed but failed to save to database'',
                  r_error = None, r_success = True, r_data = Some prediction,
                  r_updated_image = None,
                  r_warning = Some ''Prediction results could not be saved to database''\<rparr>, 200)
            else
              (\<lparr>r_message = None,
                r_error = Some (case error prediction of Some m \<Rightarrow> m | None \<Rightarrow> ''Prediction failed''),
                r_success = False, r_data = None, r_updated_image = None, r_warning = None\<rparr>, 500))"

section \<open>The specification's vocabulary\<close>

text \<open>
  A valid model bundle: the three layers chain, every bias has the width of its layer,
  and the last layer has the four outputs of the label set. No dimension is zero (a
  matrix without rows has no column count in the list-of-rows representation).
\<close>

definition valid_model :: "model_params \<Rightarrow> bool" where
  "valid_model m =
     (let n = length (W1 m); h1 = length (b1 m); h2 = length (b2 m)
      in 0 < n \<and> 0 < h1 \<and> 0 < h2 \<and> is_mat n h1 (W1 m) \<and> is_mat h1 h2 (W2 m)
         \<and> is_mat h2 4 (W3 m) \<and> length (b3 m) = 4)"



text \<open>
  The computation graph in the specification's words: \<open>Z = X\<cdot>W + b\<close> entry by entry,
  LeakyReLU with \<open>alpha = 0.01\<close>, and the row-wise softmax with the maximum subtracted.
\<close>

definition spec_affine :: "mat \<Rightarrow> mat \<Rightarrow> vec \<Rightarrow> mat" where
  "spec_affine X W b =
     map (\<lambda>x. map (\<lambda>j. (\<Sum>k<length W. x ! k * W ! k ! j) + b ! j) [0..<length b]) X"

definition spec_leaky_relu :: "real \<Rightarrow> real" where
  "spec_leaky_relu x = (if x > 0 then x else 0.01 * x)"

definition spec_softmax_row :: "vec \<Rightarrow> vec" where
  "spec_softmax_row xs =
     map (\<lambda>x. exp (x - Max (set xs)) / (\<Sum>y\<leftarrow>xs. exp (y - Max (set xs)))) xs"

definition spec_forward :: "model_params \<Rightarrow> mat \<Rightarrow> mat" where
  "spec_forward m X =
     (let Z1 = spec_affine X (W1 m) (b1 m);
          A1 = map (map spec_leaky_relu) Z1;
          Z2 = spec_affine A1 (W2 m) (b2 m);
          A2 = map (map spec_leaky_relu) Z2;
          Z3 = spec_affine A2 (W3 m) (b3 m)
      in map spec_softmax_row Z3)"

text \<open>Argmax with ties broken by the lowest index.\<close>

definition is_argmax :: "real list \<Rightarrow> nat \<Rightarrow> bool" where
  "is_argmax xs i =
     (i < length xs \<and> (\<forall>j<length xs. xs ! j \<le> xs ! i) \<and> (\<forall>j<i. xs ! j < xs ! i))"

text \<open>
  What the service relies on from Pillow for an input it can decode: the three calls
  return, and the resized image is a grid of the requested 32 rows of 32 grey values.
\<close>

definition decodes_to :: "pil \<Rightarrow> image_data \<Rightarrow> image \<Rightarrow> bool" where
  "decodes_to lib data g =
     (case bnd (case data of
                  Bytes bs \<Rightarrow> Image_open lib bs
                | PILImage i \<Rightarrow> Inr i
                | OtherObject _ \<Rightarrow> Inl (Err ValueError ''unsupported''))
            (\<lambda>img0. bnd (convert lib img0 ''L'') (\<lambda>img1. resize lib img1 (32, 32)))
      of
        Inl _ \<Rightarrow> False
      | Inr g' \<Rightarrow>
          g' = g \<and> img_mode g = ''L'' \<and> length (img_pixels g) = 32
          \<and> list_all (\<lambda>row. length row = 32) (img_pixels g))"

section \<open>A reference bundle\<close>

text \<open>
  The scenario of the specification: \<open>W1\<close> of shape (1024, 8), \<open>W2\<close> of shape (8, 8),
  \<open>W3\<close> of shape (8, 4), all biases zero; here with all weights zero and the identity
  scaler, and a Pillow that decodes every non-empty byte string to a black image.
\<close>

definition ref_model :: model_params where
  "ref_model =
     \<lparr>W1 = replicate 1024 (replicate 8 0), b1 = replicate 8 0,
      W2 = replicate 8 (replicate 8 0), b2 = replicate 8 0,
      W3 = replicate 8 (replicate 4 0), b3 = replicate 4 0,
      scaler = \<lparr>sc_mean = replicate 1024 0, sc_scale = replicate 1024 1\<rparr>\<rparr>"

definition ref_pil :: pil where
  "ref_pil =
     \<lparr>Image_open = (\<lambda>bs. if bs = [] then Inl (Err OSError ''cannot identify image file'')
                           else Inr \<lparr>img_mode = ''RGB'', img_pixels = [[0, 0, 0]]\<rparr>),
      convert = (\<lambda>img m. Inr \<lparr>img_mode = m, img_pixels = [[0]]\<rparr>),
      resize = (\<lambda>img (w, h). Inr (img\<lparr>img_pixels := replicate h (replicate w 0)\<rparr>))\<rparr>"


text \<open>A small bundle with two inputs, for running the forward pass by hand.\<close>

definition small_model :: model_params where
  "small_model =
     \<lparr>W1 = [[1, -1], [0, 2]], b1 = [0, 1],
      W2 = [[1, 0], [0, 1]], b2 = [0, 0],
      W3 = [[1, 0, 0, 0], [0, 1, 0, 0]], b3 = [0, 0, 0, 0],
      scaler = \<lparr>sc_mean = [0, 0], sc_scale = [1, 1]\<rparr>\<rparr>"


section \<open>Helper lemmas\<close>

lemma amax_eq_Max: "xs \<noteq> [] \<Longrightarrow> amax xs = Max (set xs)"
proof (cases xs)
  case Nil
  then show "xs \<noteq> [] \<Longrightarrow> amax xs = Max (set xs)" by simp
next
  case (Cons a l)
  then show ?thesis using Max.set_eq_fold [of a l] by (simp add: amax_def)
qed





lemma bnd_Inr_iff: "bnd r f = Inr v \<longleftrightarrow> (\<exists>u. r = Inr u \<and> f u = Inr v)"
  by (cases r) (simp_all add: bnd_def)

lemma bnd_Inr [simp]: "bnd (Inr u) f = f u"
  by (simp add: bnd_def)

lemma bnd_Inl [simp]: "bnd (Inl e) f = Inl e"
  by (simp add: bnd_def)

lemma map2_map_same: "map2 f xs (map g xs) = map (\<lambda>x. f x (g x)) xs"
  by (induction xs) simp_all

lemma softmax_body:
  "map (\<lambda>r. map (\<lambda>e. e / sum_list r) r) (map2 (\<lambda>r m. map (\<lambda>v. exp (v - m)) r) x (map amax x))
   = map (\<lambda>r. map (\<lambda>e. e / sum_list (map (\<lambda>v. exp (v - amax r)) r))
                           (map (\<lambda>v. exp (v - amax r)) r)) x"
  by (induction x) simp_all

lemma softmax_Inr:
  assumes "softmax x = Inr P"
  shows "list_all (\<lambda>r. r \<noteq> []) x \<and>
         P = map (\<lambda>r. map (\<lambda>e. e / sum_list (map (\<lambda>v. exp (v - amax r)) r))
                           (map (\<lambda>v. exp (v - amax r)) r)) x"
  using assms
  by (auto simp: softmax_def np_max_axis1_def bnd_Inr_iff softmax_body list_all_iff list_ex_iff
           simp del: map_map split: if_splits)

lemma softmax_ok:
  assumes "list_all (\<lambda>r. r \<noteq> []) x"
  shows "softmax x = Inr (map (\<lambda>r. map (\<lambda>e. e / sum_list (map (\<lambda>v. exp (v - amax r)) r))
                           (map (\<lambda>v. exp (v - amax r)) r)) x)"
  using assms
  by (auto simp: softmax_def np_max_axis1_def softmax_body list_all_iff list_ex_iff simp del: map_map)



lemma ncols_is_mat: "is_mat r c M \<Longrightarrow> 0 < r \<Longrightarrow> ncols M = c"
  by (cases M) (simp_all add: is_mat_def ncols_def)

lemma is_mat_row: "is_mat r c M \<Longrightarrow> x \<in> set M \<Longrightarrow> length x = c"
  by (simp add: is_mat_def list_all_iff)

lemma dot_column:
  assumes "length x = length W"
  shows "dot x (column W j) = (\<Sum>k<length W. x ! k * W ! k ! j)"
proof -
  have "dot x (column W j) = sum_list (map (\<lambda>k. x ! k * W ! k ! j) [0..<length W])"
    unfolding dot_def column_def using assms
    by (intro arg_cong [where f = sum_list] nth_equalityI) simp_all
  also have "\<dots> = (\<Sum>k<length W. x ! k * W ! k ! j)"
    by (simp add: interv_sum_list_conv_sum_set_nat atLeast0LessThan)
  finally show ?thesis .
qed

lemma np_matmul_ok:
  assumes "is_mat r n X" "0 < r" "is_mat n c W" "0 < n"
  shows "np_matmul X W = Inr (map (\<lambda>x. map (\<lambda>j. \<Sum>k<length W. x ! k * W ! k ! j) [0..<c]) X)"
proof -
  have n: "length W = n" using assms(3) by (simp add: is_mat_def)
  have "ncols X = n" "ncols W = c"
    using assms ncols_is_mat by blast+
  moreover have "\<And>x. x \<in> set X \<Longrightarrow> length x = length W"
    using is_mat_row [OF assms(1)] n by simp
  ultimately show ?thesis
    by (simp add: np_matmul_def n dot_column)
qed

lemma map2_plus_nth:
  fixes z b :: vec
  assumes "length z = length b"
  shows "map2 (+) z b = map (\<lambda>j. z ! j + b ! j) [0..<length b]"
  using assms by (intro nth_equalityI) simp_all

lemma np_add_ok:
  assumes "is_mat r c Z" "0 < r" "length b = c"
  shows "np_add Z b = Inr (map (\<lambda>z. map (\<lambda>j. z ! j + b ! j) [0..<length b]) Z)"
proof -
  have "ncols Z = length b" using assms ncols_is_mat by blast
  moreover have "\<And>z. z \<in> set Z \<Longrightarrow> length z = length b"
    using is_mat_row [OF assms(1)] assms(3) by simp
  ultimately show ?thesis
    by (simp add: np_add_def map2_plus_nth)
qed

lemma is_mat_map:
  assumes "\<And>x. x \<in> set X \<Longrightarrow> length (f x) = c"
  shows "is_mat (length X) c (map f X)"
  using assms by (simp add: is_mat_def list_all_iff)

lemma is_mat_length: "is_mat r c M \<Longrightarrow> length M = r"
  by (simp add: is_mat_def)

lemma is_mat_spec_affine: "length X = r \<Longrightarrow> is_mat r (length b) (spec_affine X W b)"
  using is_mat_map [of X "\<lambda>x. map (\<lambda>j. (\<Sum>k<length W. x ! k * W ! k ! j) + b ! j) [0..<length b]" "length b"]
  by (simp add: spec_affine_def)

lemma affine_refines:
  assumes "is_mat r n X" "0 < r" "is_mat n c W" "0 < n" "length b = c"
  shows "bnd (np_matmul X W) (\<lambda>M. np_add M b) = Inr (spec_affine X W b)"
proof -
  let ?M = "map (\<lambda>x. map (\<lambda>j. \<Sum>k<length W. x ! k * W ! k ! j) [0..<c]) X"
  have r: "length X = r" using assms(1) by (simp add: is_mat_def)
  have "is_mat (length X) c ?M" by (rule is_mat_map) simp
  then have "is_mat r c ?M" by (simp add: r)
  from np_add_ok [OF this assms(2,5)]
  have "np_add ?M b = Inr (spec_affine X W b)"
    by (simp add: spec_affine_def assms(5) comp_def)
  then show ?thesis
    by (simp add: np_matmul_ok [OF assms(1-4)])
qed

lemma leaky_relu_spec: "leaky_relu Z (1 / 100) = map (map spec_leaky_relu) Z"
  by (simp add: leaky_relu_def spec_leaky_relu_def)

lemma is_mat_map_map: "is_mat r c Z \<Longrightarrow> is_mat r c (map (map f) Z)"
  by (simp add: is_mat_def list_all_iff)

lemma softmax_spec:
  assumes "is_mat r c Z" "0 < c"
  shows "softmax Z = Inr (map spec_softmax_row Z)"
proof -
  have ne: "list_all (\<lambda>r. r \<noteq> []) Z"
    using assms by (auto simp: is_mat_def list_all_iff)
  have "\<And>x. x \<in> set Z \<Longrightarrow>
      map (\<lambda>e. e / sum_list (map (\<lambda>v. exp (v - amax x)) x)) (map (\<lambda>v. exp (v - amax x)) x)
      = spec_softmax_row x"
    using ne by (simp add: spec_softmax_row_def amax_eq_Max list_all_iff comp_def)
  then show ?thesis
    by (simp add: softmax_ok [OF ne] del: map_map)
qed

lemma forward_pass_refines:
  assumes "valid_model m" "is_mat r (length (W1 m)) X" "0 < r" "model self = Some m"
  shows "forward_pass self X = Inr (spec_forward m X) \<and> is_mat r 4 (spec_forward m X)"
proof -
  let ?n = "length (W1 m)" and ?h1 = "length (b1 m)" and ?h2 = "length (b2 m)"
  from assms(1) have v: "0 < ?n" "0 < ?h1" "0 < ?h2" "is_mat ?n ?h1 (W1 m)"
    "is_mat ?h1 ?h2 (W2 m)" "is_mat ?h2 4 (W3 m)" "length (b3 m) = 4"
    by (simp_all add: valid_model_def Let_def)
  have r: "length X = r" using assms(2) by (simp add: is_mat_def)
  let ?Z1 = "spec_affine X (W1 m) (b1 m)"
  let ?A1 = "map (map spec_leaky_relu) ?Z1"
  let ?Z2 = "spec_affine ?A1 (W2 m) (b2 m)"
  let ?A2 = "map (map spec_leaky_relu) ?Z2"
  let ?Z3 = "spec_affine ?A2 (W3 m) (b3 m)"
  have s1: "bnd (np_matmul X (W1 m)) (\<lambda>M. np_add M (b1 m)) = Inr ?Z1"
    by (rule affine_refines [OF assms(2,3) v(4) v(1)]) simp
  have m1: "is_mat r ?h1 ?A1"
    by (intro is_mat_map_map is_mat_spec_affine r)
  have s2: "bnd (np_matmul ?A1 (W2 m)) (\<lambda>M. np_add M (b2 m)) = Inr ?Z2"
    by (rule affine_refines [OF m1 assms(3) v(5) v(2)]) simp
  have m2: "is_mat r ?h2 ?A2"
    by (intro is_mat_map_map is_mat_spec_affine is_mat_length [OF m1])
  have s3: "bnd (np_matmul ?A2 (W3 m)) (\<lambda>M. np_add M (b3 m)) = Inr ?Z3"
    by (rule affine_refines [OF m2 assms(3) v(6) v(3)]) (simp add: v(7))
  have m3: "is_mat r 4 ?Z3"
    using is_mat_spec_affine [OF is_mat_length [OF m2], of "b3 m" "W3 m"] by (simp add: v(7))
  have s4: "softmax ?Z3 = Inr (map spec_softmax_row ?Z3)"
    by (rule softmax_spec [OF m3]) simp
  have "is_mat r 4 (map spec_softmax_row ?Z3)"
    using m3 by (simp add: is_mat_def list_all_iff spec_softmax_row_def)
  moreover have "forward_pass self X = Inr (map spec_softmax_row ?Z3)"
    using s1 s2 s3 s4 assms(4)
    by (auto simp: forward_pass_def bnd_Inr_iff leaky_relu_spec Let_def)
  ultimately show ?thesis
    by (simp add: spec_forward_def Let_def)
qed


lemma valid_small_model: "valid_model small_model"
  by (simp add: valid_model_def small_model_def is_mat_def)

lemma ncols_replicate: "0 < n \<Longrightarrow> ncols (replicate n r) = length r"
  by (cases n) (simp_all add: ncols_def)

lemma ncols_single [simp]: "ncols [r] = length r"
  by (simp add: ncols_def)

lemma map_upt_replicate: "(\<And>j. j < c \<Longrightarrow> f j = v) \<Longrightarrow> map f [0..<c] = replicate c v"
  by (intro nth_equalityI) simp_all

lemma column_replicate: "j < c \<Longrightarrow> column (replicate n (replicate c v)) j = replicate n v"
  by (simp add: column_def)

lemma dot_replicate_zero: "dot (replicate n 0) (replicate n 0) = 0"
  by (simp add: dot_def sum_list_replicate)

lemma concat_replicate_replicate: "concat (replicate n (replicate k x)) = replicate (n * k) x"
  by (induction n) (simp_all add: replicate_add)

lemma zero_layer:
  assumes "0 < n"
  shows "bnd (np_matmul [replicate n 0] (replicate n (replicate c 0))) (\<lambda>M. np_add M (replicate c 0))
         = Inr [replicate c 0]"
proof -
  have "map (\<lambda>j. dot (replicate n 0) (column (replicate n (replicate c 0)) j)) [0..<c] = replicate c 0"
    by (rule map_upt_replicate) (simp add: column_replicate dot_replicate_zero)
  then have "np_matmul [replicate n 0] (replicate n (replicate c 0)) = Inr [replicate c 0]"
    using assms by (simp add: np_matmul_def ncols_replicate)
  then show ?thesis
    by (simp add: np_add_def)
qed

lemma leaky_relu_zero: "leaky_relu [replicate c 0] a = [replicate c 0]"
  by (simp add: leaky_relu_def)

lemma softmax_zero4: "softmax [replicate 4 0] = Inr [[1 / 4, 1 / 4, 1 / 4, 1 / 4]]"
  by (simp add: softmax_def np_max_axis1_def amax_def numeral_eq_Suc)

lemma ref_forward_pass:
  "forward_pass \<lparr>model = Some ref_model\<rparr> [replicate 1024 0] = Inr [[1 / 4, 1 / 4, 1 / 4, 1 / 4]]"
proof -
  have 1: "bnd (np_matmul [replicate 1024 0] (W1 ref_model)) (\<lambda>M. np_add M (b1 ref_model)) = Inr [replicate 8 0]"
    using zero_layer [of 1024 8] by (simp add: ref_model_def)
  have 2: "bnd (np_matmul [replicate 8 0] (W2 ref_model)) (\<lambda>M. np_add M (b2 ref_model)) = Inr [replicate 8 0]"
    using zero_layer [of 8 8] by (simp add: ref_model_def)
  have 3: "bnd (np_matmul [replicate 8 0] (W3 ref_model)) (\<lambda>M. np_add M (b3 ref_model)) = Inr [replicate 4 0]"
    using zero_layer [of 8 4] by (simp add: ref_model_def)
  from 1 obtain u1 where u1: "np_matmul [replicate 1024 0] (W1 ref_model) = Inr u1"
    "np_add u1 (b1 ref_model) = Inr [replicate 8 0]" by (auto simp: bnd_Inr_iff)
  from 2 obtain u2 where u2: "np_matmul [replicate 8 0] (W2 ref_model) = Inr u2"
    "np_add u2 (b2 ref_model) = Inr [replicate 8 0]" by (auto simp: bnd_Inr_iff)
  from 3 obtain u3 where u3: "np_matmul [replicate 8 0] (W3 ref_model) = Inr u3"
    "np_add u3 (b3 ref_model) = Inr [replicate 4 0]" by (auto simp: bnd_Inr_iff)
  show ?thesis
    by (simp add: forward_pass_def u1 u2 u3 leaky_relu_zero softmax_zero4 Let_def)
qed

lemma ref_preprocess_scaler:
  assumes "scaler m = scaler ref_model"
  shows "preprocess_image \<lparr>model = Some m\<rparr> ref_pil (Bytes [7]) = Inr [replicate 1024 0]"
proof -
  have "map (\<lambda>i. (replicate 1024 0 ! i - replicate 1024 0 ! i) / replicate 1024 1 ! i) [0..<1024]
        = replicate 1024 (0::real)"
    by (rule map_upt_replicate) simp
  then have "transform (scaler m) [replicate 1024 0] = Inr [replicate 1024 0]"
    by (simp add: transform_def ref_model_def assms)
  then show ?thesis
    by (simp add: preprocess_image_def ref_pil_def concat_replicate_replicate)
qed

lemma ref_preprocess:
  "preprocess_image \<lparr>model = Some ref_model\<rparr> ref_pil (Bytes [7]) = Inr [replicate 1024 0]"
  by (rule ref_preprocess_scaler) simp

lemma ref_predict_try:
  "predict_try \<lparr>model = Some ref_model\<rparr> ref_pil (Bytes [7]) =
     Inr \<lparr>success = True, error = None, predicted_class = Some 0, tumor_type = Some ''glioma'',
          confidence = 1 / 4, probabilities = [1 / 4, 1 / 4, 1 / 4, 1 / 4],
          class_probabilities = [(''glioma'', 1 / 4), (''meningioma'', 1 / 4),
                                 (''notumor'', 1 / 4), (''pituitary'', 1 / 4)],
          message = Some (''Brain scan classified as: glioma (confidence: '' @ fmt_pct (1 / 4) @ '')'')\<rparr>"
  by (simp add: predict_try_def ref_preprocess ref_forward_pass np_argmax_def np_max_def amax_def
        label_lookup_def label_items_def index2_def tolist0_def upt_rec)

lemma fmt_quarter: "fmt_pct (1 / 4) = ''25.00%''"
  by (simp add: fmt_pct_def round_half_even_def str_nat.simps Let_def)

lemma predict_try_Inr:
  assumes "predict_try self lib d = Inr r"
  shows "\<exists>X P pc tt conf cps row.
           preprocess_image self lib d = Inr X \<and> forward_pass self X = Inr P
           \<and> np_argmax P = Inr pc \<and> label_lookup pc = Inr tt \<and> np_max P = Inr conf
           \<and> class_probabilities_of P [0..<length label_items] = Inr cps \<and> tolist0 P = Inr row
           \<and> r = \<lparr>success = True, error = None, predicted_class = Some pc, tumor_type = Some tt,
                  confidence = conf, probabilities = row, class_probabilities = cps,
                  message = Some (''Brain scan classified as: '' @ tt @ '' (confidence: ''
                                  @ fmt_pct conf @ '')'')\<rparr>"
  using assms unfolding predict_try_def bnd_Inr_iff by blast

lemma predict_success:
  assumes "success (predict_brain_tumor self lib d)"
  shows "predict_try self lib d = Inr (predict_brain_tumor self lib d)"
  using assms by (cases "predict_try self lib d") (simp_all add: predict_brain_tumor_def)

lemma predict_failure:
  assumes "predict_try self lib d = Inl e"
  shows "predict_brain_tumor self lib d =
           \<lparr>success = False, error = Some (''Prediction failed: '' @ str e),
            predicted_class = None, tumor_type = None, confidence = 0, probabilities = [],
            class_probabilities = [], message = None\<rparr>"
  using assms by (simp add: predict_brain_tumor_def)

lemma transform_rows: "transform sc X = Inr Y \<Longrightarrow> length Y = length X"
  by (auto simp: transform_def split: if_splits)

lemma preprocess_single_row:
  assumes "preprocess_image self lib d = Inr X"
  shows "\<exists>x. X = [x]"
proof -
  from assms obtain sc v where "transform sc [v] = Inr X"
    by (auto simp: preprocess_image_def bnd_Inr_iff Let_def split: sum.splits)
  from transform_rows [OF this] show ?thesis
    by (cases X) simp_all
qed

lemma np_matmul_rows: "np_matmul X W = Inr M \<Longrightarrow> length M = length X"
  by (auto simp: np_matmul_def split: if_splits)

lemma np_add_rows: "np_add Z b = Inr M \<Longrightarrow> length M = length Z"
  by (auto simp: np_add_def split: if_splits)

lemma leaky_relu_rows: "length (leaky_relu Z a) = length Z"
  by (simp add: leaky_relu_def)

lemma softmax_rows_length: "softmax Z = Inr P \<Longrightarrow> length P = length Z"
  using softmax_Inr [of Z P] by simp

lemma forward_pass_rows:
  assumes "forward_pass self X = Inr P"
  shows "length P = length X"
  using assms
  by (auto simp: forward_pass_def bnd_Inr_iff Let_def leaky_relu_rows
           dest!: np_matmul_rows np_add_rows softmax_rows_length split: option.splits)

lemma argmax_from_correct:
  assumes "mi < length pre" "pre ! mi = mv" "\<forall>j<length pre. pre ! j \<le> mv"
    "\<forall>j<mi. pre ! j < mv" "i = length pre"
  shows "is_argmax (pre @ xs) (argmax_from mv mi i xs)"
  using assms
proof (induction xs arbitrary: pre mv mi i)
  case Nil
  then show ?case by (simp add: is_argmax_def)
next
  case (Cons x xs)
  show ?case
  proof (cases "x > mv")
    case True
    have "is_argmax ((pre @ [x]) @ xs) (argmax_from x (length pre) (Suc (length pre)) xs)"
    proof (rule Cons.IH)
      show "\<forall>j<length (pre @ [x]). (pre @ [x]) ! j \<le> x"
        using Cons.prems(3) True by (auto simp: nth_append less_Suc_eq intro: order.trans less_imp_le)
      show "\<forall>j<length pre. (pre @ [x]) ! j < x"
        using Cons.prems(3) True by (auto simp: nth_append intro: le_less_trans)
    qed simp_all
    then show ?thesis using True Cons.prems(5) by simp
  next
    case False
    have "is_argmax ((pre @ [x]) @ xs) (argmax_from mv mi (Suc (length pre)) xs)"
    proof (rule Cons.IH)
      show "mi < length (pre @ [x])" using Cons.prems(1) by simp
      show "(pre @ [x]) ! mi = mv" using Cons.prems(1,2) by (simp add: nth_append)
      show "\<forall>j<length (pre @ [x]). (pre @ [x]) ! j \<le> mv"
        using Cons.prems(3) False by (auto simp: nth_append less_Suc_eq)
      show "\<forall>j<mi. (pre @ [x]) ! j < mv"
        using Cons.prems(1,4) by (auto simp: nth_append)
    qed simp
    then show ?thesis using False Cons.prems(5) by simp
  qed
qed

lemma np_argmax_correct:
  assumes "np_argmax [row] = Inr i"
  shows "is_argmax row i"
proof (cases row)
  case Nil
  with assms show ?thesis by (simp add: np_argmax_def)
next
  case (Cons x xs)
  with assms have i: "i = argmax_from x 0 1 xs" by (simp add: np_argmax_def)
  have "is_argmax ([x] @ xs) (argmax_from x 0 1 xs)"
    by (rule argmax_from_correct) simp_all
  then show ?thesis using Cons i by simp
qed

lemma is_argmax_Max:
  assumes "is_argmax xs i"
  shows "Max (set xs) = xs ! i"
proof (rule Max_eqI)
  show "finite (set xs)" by simp
  show "\<And>y. y \<in> set xs \<Longrightarrow> y \<le> xs ! i"
    using assms by (auto simp: is_argmax_def in_set_conv_nth)
  show "xs ! i \<in> set xs" using assms by (simp add: is_argmax_def)
qed

lemma np_max_single:
  assumes "np_max [row] = Inr c"
  shows "row \<noteq> [] \<and> c = Max (set row)"
  using assms amax_eq_Max [of row] by (cases row) (simp_all add: np_max_def)

lemma label_lookup_Inr:
  assumes "label_lookup k = Inr l"
  shows "k < 4 \<and> l = [''glioma'', ''meningioma'', ''notumor'', ''pituitary''] ! k"
  using assms by (auto simp: label_lookup_def label_items_def split: if_splits)

lemma class_probabilities_single:
  assumes "class_probabilities_of [row] [0..<length label_items] = Inr cps"
  shows "4 \<le> length row \<and>
         cps = [(''glioma'', row ! 0), (''meningioma'', row ! 1), (''notumor'', row ! 2),
                (''pituitary'', row ! 3)]"
  using assms
  by (auto simp: label_items_def upt_rec bnd_Inr_iff label_lookup_def index2_def eval_nat_numeral
           split: if_splits)



lemma prediction_facts:
  assumes "predict_brain_tumor self lib d = r" and "success r"
  shows "\<exists>x row i. preprocess_image self lib d = Inr [x] \<and> forward_pass self [x] = Inr [row]
           \<and> is_argmax row i \<and> i < 4 \<and> 4 \<le> length row
           \<and> r = \<lparr>success = True, error = None, predicted_class = Some i,
                  tumor_type = Some ([''glioma'', ''meningioma'', ''notumor'', ''pituitary''] ! i),
                  confidence = row ! i, probabilities = row,
                  class_probabilities = [(''glioma'', row ! 0), (''meningioma'', row ! 1),
                                         (''notumor'', row ! 2), (''pituitary'', row ! 3)],
                  message = Some (''Brain scan classified as: ''
                                  @ [''glioma'', ''meningioma'', ''notumor'', ''pituitary''] ! i
                                  @ '' (confidence: '' @ fmt_pct (row ! i) @ '')'')\<rparr>"
proof -
  from predict_success [of self lib d] assms have "predict_try self lib d = Inr r" by simp
  from predict_try_Inr [OF this] obtain X P pc tt conf cps row where
    s: "preprocess_image self lib d = Inr X" "forward_pass self X = Inr P"
       "np_argmax P = Inr pc" "label_lookup pc = Inr tt" "np_max P = Inr conf"
       "class_probabilities_of P [0..<length label_items] = Inr cps" "tolist0 P = Inr row"
    and r: "r = \<lparr>success = True, error = None, predicted_class = Some pc, tumor_type = Some tt,
                  confidence = conf, probabilities = row, class_probabilities = cps,
                  message = Some (''Brain scan classified as: '' @ tt @ '' (confidence: ''
                                  @ fmt_pct conf @ '')'')\<rparr>"
    by blast
  from preprocess_single_row [OF s(1)] obtain x where X: "X = [x]" by blast
  from forward_pass_rows [OF s(2)] X have "length P = 1" by simp
  with s(7) have P: "P = [row]" by (cases P) (simp_all add: tolist0_def)
  from np_argmax_correct s(3) P have am: "is_argmax row pc" by simp
  from np_max_single s(5) P have "conf = Max (set row)" by simp
  with is_argmax_Max [OF am] have conf: "conf = row ! pc" by simp
  from label_lookup_Inr [OF s(4)] have l: "pc < 4"
    "tt = [''glioma'', ''meningioma'', ''notumor'', ''pituitary''] ! pc" by simp_all
  from class_probabilities_single s(6) P have c: "4 \<le> length row"
    "cps = [(''glioma'', row ! 0), (''meningioma'', row ! 1), (''notumor'', row ! 2),
            (''pituitary'', row ! 3)]" by simp_all
  show ?thesis
    using s(1,2) X P am l c conf r by blast
qed



section \<open>The inference engine\<close>

text \<open>
  C1. For a valid model bundle and a feature vector of the width of \<open>W1\<close>, the forward
  pass returns, and what it returns is the fixed graph of the specification:
  \<open>Z1 = X\<cdot>W1 + b1\<close>, \<open>A1 = LeakyReLU(Z1)\<close>, \<open>Z2 = A1\<cdot>W2 + b2\<close>, \<open>A2 = LeakyReLU(Z2)\<close>,
  \<open>Z3 = A2\<cdot>W3 + b3\<close>, \<open>A3 = Softmax(Z3)\<close> with the row maximum subtracted.
\<close>

theorem forward_pass_is_spec_graph:
  assumes "model self = Some m" and "valid_model m" and "is_mat 1 (length (W1 m)) X"
  shows "forward_pass self X = Inr (spec_forward m X)"
  using forward_pass_refines [OF assms(2,3) _ assms(1)] by simp

theorem forward_pass_is_spec_graph_witness:
  "model \<lparr>model = Some small_model\<rparr> = Some small_model \<and> valid_model small_model
   \<and> is_mat 1 (length (W1 small_model)) [[3, 1]]
   \<and> forward_pass \<lparr>model = Some small_model\<rparr> [[3, 1]] = Inr (spec_forward small_model [[3, 1]])"
proof -
  have x: "is_mat 1 (length (W1 small_model)) [[3, 1]]"
    by (simp add: small_model_def is_mat_def)
  show ?thesis
    using valid_small_model x
      forward_pass_is_spec_graph [of "\<lparr>model = Some small_model\<rparr>" small_model "[[3, 1]]"]
    by simp
qed








section \<open>The image preprocessor\<close>

lemma length_concat_uniform:
  "list_all (\<lambda>row. length row = k) xss \<Longrightarrow> length (concat xss) = k * length xss"
  by (induction xss) simp_all

lemma nth_concat_uniform:
  "list_all (\<lambda>row. length row = k) xss \<Longrightarrow> r < length xss \<Longrightarrow> c < k \<Longrightarrow>
     concat xss ! (k * r + c) = xss ! r ! c"
proof (induction xss arbitrary: r)
  case Nil
  then show ?case by simp
next
  case (Cons row xss)
  show ?case
  proof (cases r)
    case 0
    with Cons.prems show ?thesis by (simp add: nth_append)
  next
    case (Suc r')
    with Cons.prems have "concat xss ! (k * r' + c) = xss ! r' ! c"
      by (intro Cons.IH) simp_all
    moreover have "k * r + c = length row + (k * r' + c)"
      using Cons.prems(1) Suc by simp
    ultimately show ?thesis
      using Suc by (simp only: concat.simps nth_append_length_plus nth_Cons_Suc)
  qed
qed

lemma decodes_to_steps:
  assumes "decodes_to lib d g"
  shows "\<exists>img0 img1.
           (case d of Bytes bs \<Rightarrow> Image_open lib bs | PILImage i \<Rightarrow> Inr i
                    | OtherObject _ \<Rightarrow> Inl (Err ValueError ''unsupported'')) = Inr img0
           \<and> convert lib img0 ''L'' = Inr img1 \<and> resize lib img1 (32, 32) = Inr g
           \<and> img_mode g = ''L'' \<and> length (img_pixels g) = 32
           \<and> list_all (\<lambda>row. length row = 32) (img_pixels g)"
  using assms by (auto simp: decodes_to_def bnd_Inr_iff split: sum.splits)

lemma preprocess_decoded:
  assumes "model self = Some m" and "decodes_to lib d g"
  shows "preprocess_image self lib d =
           (case transform (scaler m) [map real (concat (img_pixels g))] of
              Inl e \<Rightarrow> Inl (Err Exception (''Image preprocessing failed: '' @ str e))
            | Inr v \<Rightarrow> Inr v)"
proof -
  from decodes_to_steps [OF assms(2)] obtain img0 img1 where
    s: "(case d of Bytes bs \<Rightarrow> Image_open lib bs | PILImage i \<Rightarrow> Inr i
                    | OtherObject _ \<Rightarrow> Inl (Err ValueError ''unsupported'')) = Inr img0"
       "convert lib img0 ''L'' = Inr img1" "resize lib img1 (32, 32) = Inr g"
    by blast
  from s(1) have "(case d of Bytes bs \<Rightarrow> Image_open lib bs | PILImage i \<Rightarrow> Inr i
                    | OtherObject _ \<Rightarrow>
                        Inl (Err ValueError ''Invalid image data type. Expected bytes or PIL Image.''))
                  = Inr img0"
    by (cases d) simp_all
  then show ?thesis
    by (simp add: preprocess_image_def s(2,3) assms(1) Let_def)
qed

text \<open>
  C6. For every input that Pillow decodes, converts to mode \<^verbatim>\<open>L\<close> and resizes to the grid
  \<open>g\<close> of 32 rows of 32 grey values, and a scaler of 1024 means and 1024 non-zero scales,
  preprocessing returns one row of 1024 numbers: the entry at index \<open>32 r + c\<close> is the
  pixel of row \<open>r\<close> and column \<open>c\<close> (row-major flattening), minus the mean and divided by
  the scale of that index. Numbers are reals, not 32-bit floats.
\<close>

theorem preprocess_image_scaled_vector:
  assumes "model self = Some m" and "decodes_to lib d g"
    and "length (sc_mean (scaler m)) = 1024" and "length (sc_scale (scaler m)) = 1024"
    and "0 \<notin> set (sc_scale (scaler m))"
  shows "\<exists>x. preprocess_image self lib d = Inr [x] \<and> length x = 1024
           \<and> (\<forall>r<32. \<forall>c<32.
                 x ! (32 * r + c) =
                   (real (img_pixels g ! r ! c) - sc_mean (scaler m) ! (32 * r + c))
                   / sc_scale (scaler m) ! (32 * r + c))"
proof -
  let ?v = "map real (concat (img_pixels g))"
  let ?x = "map (\<lambda>i. (?v ! i - sc_mean (scaler m) ! i) / sc_scale (scaler m) ! i) [0..<1024]"
  from decodes_to_steps [OF assms(2)] have g: "length (img_pixels g) = 32"
    "list_all (\<lambda>row. length row = 32) (img_pixels g)" by auto
  from length_concat_uniform [OF g(2)] g(1) have len: "length ?v = 1024" by simp
  then have "transform (scaler m) [?v] = Inr [?x]"
    by (simp add: transform_def assms(3,4))
  then have p: "preprocess_image self lib d = Inr [?x]"
    by (simp add: preprocess_decoded [OF assms(1,2)])
  have "?x ! (32 * r + c) =
          (real (img_pixels g ! r ! c) - sc_mean (scaler m) ! (32 * r + c))
          / sc_scale (scaler m) ! (32 * r + c)" if "r < 32" "c < 32" for r c
  proof -
    have i: "32 * r + c < 1024" using that by simp
    have "concat (img_pixels g) ! (32 * r + c) = img_pixels g ! r ! c"
      using nth_concat_uniform [OF g(2), of r c] that g(1) by simp
    moreover have "32 * r + c < length (concat (img_pixels g))" using i len by simp
    ultimately show ?thesis using i by simp
  qed
  with p show ?thesis by (intro exI [of _ ?x]) simp
qed

theorem preprocess_image_scaled_vector_witness:
  "decodes_to ref_pil (Bytes [7]) \<lparr>img_mode = ''L'', img_pixels = replicate 32 (replicate 32 0)\<rparr>
   \<and> length (sc_mean (scaler ref_model)) = 1024 \<and> length (sc_scale (scaler ref_model)) = 1024
   \<and> 0 \<notin> set (sc_scale (scaler ref_model))
   \<and> (\<exists>x. preprocess_image \<lparr>model = Some ref_model\<rparr> ref_pil (Bytes [7]) = Inr [x] \<and> length x = 1024
         \<and> (\<forall>r<32. \<forall>c<32. x ! (32 * r + c) = (real 0 - 0) / 1))"
proof -
  let ?g = "\<lparr>img_mode = ''L'', img_pixels = replicate 32 (replicate 32 0)\<rparr>"
  have d: "decodes_to ref_pil (Bytes [7]) ?g"
    by (simp add: decodes_to_def ref_pil_def list_all_iff)
  have s: "length (sc_mean (scaler ref_model)) = 1024" "length (sc_scale (scaler ref_model)) = 1024"
    "0 \<notin> set (sc_scale (scaler ref_model))"
    by (simp_all add: ref_model_def)
  from preprocess_image_scaled_vector [of "\<lparr>model = Some ref_model\<rparr>" ref_model ref_pil "Bytes [7]" ?g,
      OF _ d s]
  obtain x where x: "preprocess_image \<lparr>model = Some ref_model\<rparr> ref_pil (Bytes [7]) = Inr [x]"
    "length x = 1024"
    "\<forall>r<32. \<forall>c<32. x ! (32 * r + c) =
        (real (img_pixels ?g ! r ! c) - sc_mean (scaler ref_model) ! (32 * r + c))
        / sc_scale (scaler ref_model) ! (32 * r + c)"
    by auto
  have "x ! (32 * r + c) = (real 0 - 0) / 1" if "r < 32" "c < 32" for r c
  proof -
    have "32 * r + c < 1024" using that by simp
    then show ?thesis using x(3) that by (simp add: ref_model_def)
  qed
  with d s x(1,2) show ?thesis by blast
qed

lemma ref_prediction:
  "predict_brain_tumor \<lparr>model = Some ref_model\<rparr> ref_pil (Bytes [7]) =
     \<lparr>success = True, error = None, predicted_class = Some 0, tumor_type = Some ''glioma'',
      confidence = 1 / 4, probabilities = [1 / 4, 1 / 4, 1 / 4, 1 / 4],
      class_probabilities = [(''glioma'', 1 / 4), (''meningioma'', 1 / 4),
                             (''notumor'', 1 / 4), (''pituitary'', 1 / 4)],
      message = Some ''Brain scan classified as: glioma (confidence: 25.00%)''\<rparr>"
  by (simp add: predict_brain_tumor_def ref_predict_try fmt_quarter)

section \<open>The prediction formatter\<close>

text \<open>
  C3. For every successful prediction: the reported index is the argmax of the reported
  probability row, ties broken by the lowest index; the reported label is the label at
  that index under the fixed ordering glioma, meningioma, notumor, pituitary; the reported
  confidence is the probability at that index; and the class-probability mapping lists
  the four labels in that order, each with the probability at its index.
\<close>

theorem prediction_reports_argmax:
  assumes "predict_brain_tumor self lib d = r" and "success r"
  shows "\<exists>i<4. predicted_class r = Some i \<and> is_argmax (probabilities r) i
           \<and> tumor_type r = Some ([''glioma'', ''meningioma'', ''notumor'', ''pituitary''] ! i)
           \<and> confidence r = probabilities r ! i
           \<and> map fst (class_probabilities r) = [''glioma'', ''meningioma'', ''notumor'', ''pituitary'']
           \<and> map snd (class_probabilities r) = take 4 (probabilities r)"
proof -
  from prediction_facts [OF assms] obtain x row i where
    f: "is_argmax row i" "i < 4" "4 \<le> length row"
    and r: "r = \<lparr>success = True, error = None, predicted_class = Some i,
                  tumor_type = Some ([''glioma'', ''meningioma'', ''notumor'', ''pituitary''] ! i),
                  confidence = row ! i, probabilities = row,
                  class_probabilities = [(''glioma'', row ! 0), (''meningioma'', row ! 1),
                                         (''notumor'', row ! 2), (''pituitary'', row ! 3)],
                  message = Some (''Brain scan classified as: ''
                                  @ [''glioma'', ''meningioma'', ''notumor'', ''pituitary''] ! i
                                  @ '' (confidence: '' @ fmt_pct (row ! i) @ '')'')\<rparr>"
    by blast
  from f(3) obtain a b c d rest where "row = a # b # c # d # rest"
    by (auto simp: eval_nat_numeral Suc_le_length_iff)
  then have "[row ! 0, row ! 1, row ! 2, row ! 3] = take 4 row"
    by (simp add: eval_nat_numeral)
  then show ?thesis
    using f(1,2) by (intro exI [of _ i]) (simp add: r)
qed

theorem prediction_reports_argmax_witness:
  "success (predict_brain_tumor \<lparr>model = Some ref_model\<rparr> ref_pil (Bytes [7]))
   \<and> (\<exists>i<4. predicted_class (predict_brain_tumor \<lparr>model = Some ref_model\<rparr> ref_pil (Bytes [7])) = Some i
         \<and> is_argmax [1 / 4, 1 / 4, 1 / 4, 1 / 4] i)"
  using prediction_reports_argmax [of "\<lparr>model = Some ref_model\<rparr>" ref_pil "Bytes [7]",
      OF refl]
  by (simp add: ref_prediction)




text \<open>
  C2. \<open>predict_brain_tumor\<close> is a total function into result dictionaries: no exception
  leaves it. Whenever any step of its \<^verbatim>\<open>try\<close> body raises, the result has
  \<open>success = False\<close>, the non-empty error text \<^verbatim>\<open>Prediction failed: ...\<close>, confidence 0
  and empty probability fields; bytes that Pillow cannot open and inputs of an
  unsupported type are such failures.
\<close>

theorem predict_brain_tumor_always_responds:
  "(\<forall>e. predict_try self lib d = Inl e \<longrightarrow>
      ''Prediction failed: '' @ str e \<noteq> [] \<and>
      predict_brain_tumor self lib d =
        \<lparr>success = False, error = Some (''Prediction failed: '' @ str e),
         predicted_class = None, tumor_type = None, confidence = 0, probabilities = [],
         class_probabilities = [], message = None\<rparr>)
   \<and> (\<forall>r. predict_try self lib d = Inr r \<longrightarrow> predict_brain_tumor self lib d = r \<and> success r)
   \<and> (\<forall>bs e. d = Bytes bs \<and> Image_open lib bs = Inl e \<longrightarrow>
         predict_try self lib d = Inl (Err Exception (''Image preprocessing failed: '' @ str e)))
   \<and> (\<forall>t. d = OtherObject t \<longrightarrow>
         predict_try self lib d =
           Inl (Err Exception
             ''Image preprocessing failed: Invalid image data type. Expected bytes or PIL Image.''))"
proof (intro conjI allI impI)
  fix e assume "predict_try self lib d = Inl e"
  then show "predict_brain_tumor self lib d =
        \<lparr>success = False, error = Some (''Prediction failed: '' @ str e),
         predicted_class = None, tumor_type = None, confidence = 0, probabilities = [],
         class_probabilities = [], message = None\<rparr>"
    by (rule predict_failure)
next
  fix e show "''Prediction failed: '' @ str e \<noteq> []" by simp
next
  fix r assume r: "predict_try self lib d = Inr r"
  then show "predict_brain_tumor self lib d = r" by (simp add: predict_brain_tumor_def)
  from predict_try_Inr [OF r] show "success r" by auto
next
  fix bs e assume "d = Bytes bs \<and> Image_open lib bs = Inl e"
  then show "predict_try self lib d = Inl (Err Exception (''Image preprocessing failed: '' @ str e))"
    by (simp add: predict_try_def preprocess_image_def)
next
  fix t assume "d = OtherObject t"
  then show "predict_try self lib d =
           Inl (Err Exception
             ''Image preprocessing failed: Invalid image data type. Expected bytes or PIL Image.'')"
    by (simp add: predict_try_def preprocess_image_def)
qed

theorem predict_brain_tumor_always_responds_witness:
  "Image_open ref_pil [] = Inl (Err OSError ''cannot identify image file'')
   \<and> predict_brain_tumor \<lparr>model = Some ref_model\<rparr> ref_pil (Bytes []) =
        \<lparr>success = False,
         error = Some ''Prediction failed: Image preprocessing failed: cannot identify image file'',
         predicted_class = None, tumor_type = None, confidence = 0, probabilities = [],
         class_probabilities = [], message = None\<rparr>"
proof -
  have o: "Image_open ref_pil [] = Inl (Err OSError ''cannot identify image file'')"
    by (simp add: ref_pil_def)
  from predict_brain_tumor_always_responds [of "\<lparr>model = Some ref_model\<rparr>" ref_pil "Bytes []"]
  have 1: "\<And>e. predict_try \<lparr>model = Some ref_model\<rparr> ref_pil (Bytes []) = Inl e \<Longrightarrow>
      predict_brain_tumor \<lparr>model = Some ref_model\<rparr> ref_pil (Bytes []) =
        \<lparr>success = False, error = Some (''Prediction failed: '' @ str e),
         predicted_class = None, tumor_type = None, confidence = 0, probabilities = [],
         class_probabilities = [], message = None\<rparr>"
    and 2: "\<And>bs e. Bytes [] = Bytes bs \<and> Image_open ref_pil bs = Inl e \<Longrightarrow>
         predict_try \<lparr>model = Some ref_model\<rparr> ref_pil (Bytes []) =
           Inl (Err Exception (''Image preprocessing failed: '' @ str e))"
    by blast+
  from 2 [of "[]", OF conjI [OF refl o]] have
    "predict_try \<lparr>model = Some ref_model\<rparr> ref_pil (Bytes []) =
       Inl (Err Exception (''Image preprocessing failed: '' @ str (Err OSError ''cannot identify image file'')))" .
  from 1 [OF this] o show ?thesis by simp
qed

section \<open>The model store\<close>







section \<open>Persisting a prediction\<close>

text \<open>
  C10. In \<open>predict_and_save_brain_tumor\<close>, when the prediction succeeds and the repository
  update returns \<^verbatim>\<open>None\<close>, the controller returns status 200 with \<open>success = True\<close>, the
  whole prediction as data, and the warning that the results could not be saved.
\<close>

theorem prediction_kept_when_save_fails:
  assumes "\<not> not_image_data d" and "iid \<noteq> []"
    and "success (predict_brain_tumor svc lib d)"
    and "update_image_information patch base_url iid (predict_brain_tumor svc lib d) = JNull"
  shows "predict_and_save_brain_tumor svc lib patch base_url d (Some iid) =
           (\<lparr>r_message = Some ''Brain tumor prediction completed but failed to save to database'',
             r_error = None, r_success = True, r_data = Some (predict_brain_tumor svc lib d),
             r_updated_image = None,
             r_warning = Some ''Prediction results could not be saved to database''\<rparr>, 200)"
  using assms by (simp add: predict_and_save_brain_tumor_def Let_def)

theorem prediction_kept_when_save_fails_witness:
  "\<not> not_image_data (Bytes [7])
   \<and> success (predict_brain_tumor \<lparr>model = Some ref_model\<rparr> ref_pil (Bytes [7]))
   \<and> update_image_information (\<lambda>url p. Inl (Err OSError ''connection refused''))
        ''https://db.example/rest/v1'' ''42''
        (predict_brain_tumor \<lparr>model = Some ref_model\<rparr> ref_pil (Bytes [7])) = JNull
   \<and> predict_and_save_brain_tumor \<lparr>model = Some ref_model\<rparr> ref_pil
        (\<lambda>url p. Inl (Err OSError ''connection refused'')) ''https://db.example/rest/v1''
        (Bytes [7]) (Some ''42'') =
           (\<lparr>r_message = Some ''Brain tumor prediction completed but failed to save to database'',
             r_error = None, r_success = True,
             r_data = Some (predict_brain_tumor \<lparr>model = Some ref_model\<rparr> ref_pil (Bytes [7])),
             r_updated_image = None,
             r_warning = Some ''Prediction results could not be saved to database''\<rparr>, 200)"
proof -
  have d: "\<not> not_image_data (Bytes [7])" by (simp add: not_image_data_def)
  have s: "success (predict_brain_tumor \<lparr>model = Some ref_model\<rparr> ref_pil (Bytes [7]))"
    by (simp add: ref_prediction)
  have u: "update_image_information (\<lambda>url p. Inl (Err OSError ''connection refused''))
        ''https://db.example/rest/v1'' ''42''
        (predict_brain_tumor \<lparr>model = Some ref_model\<rparr> ref_pil (Bytes [7])) = JNull"
    by (simp add: update_image_information_def)
  from prediction_kept_when_save_fails [OF d _ s u] d s u show ?thesis by simp
qed

end
